theory Spec2Isabelle
  imports Main "HOL-Library.Word"
begin

unbundle bit_operations_syntax

section \<open>Basic types\<close>

text \<open>
  \<open>byte\<close> is the library's unsigned 8-bit type; \<open>uint32\<close>, \<open>int32\<close> and \<open>uint64\<close> are
  its fixed-width integers. A signed value is kept as its two's-complement bit pattern
  and read with \<open>sint\<close>.
\<close>

type_synonym byte = "8 word"
type_synonym uint32 = "32 word"
type_synonym int32 = "32 word"
type_synonym uint64 = "64 word"

datatype error = IndexOutOfRange | IllegalArgument | InvalidState

section \<open>Endian-aware integer access (memoryView.hpp)\<close>

text \<open>
  The functions take a raw pointer \<open>b\<close> and an index \<open>i\<close> and touch \<open>b[i] .. b[i + 3]\<close>
  (or \<open>b[i + 7]\<close>). The array behind the pointer is a list of bytes. The source makes no
  bounds check of its own: an access outside the array is undefined in C++, and the model
  gives \<open>None\<close> there, so that every result \<open>Some\<close> is a run within the array.

  \<open>n >> k\<close> is \<open>drop_bit k n\<close> on an unsigned value and the arithmetic shift
  \<open>signed_drop_bit k n\<close> on a signed one; \<open>x << k\<close> is \<open>push_bit k x\<close>;
  \<open>static_cast\<close> between widths of unsigned values is \<open>ucast\<close>.
\<close>

definition getUint32_BE :: "byte list \<Rightarrow> nat \<Rightarrow> uint32 option" where
  "getUint32_BE b i =
     (if i + 4 \<le> length b
      then Some (push_bit 24 (ucast (b ! i))
              OR push_bit 16 (ucast (b ! (i + 1)))
              OR push_bit 8 (ucast (b ! (i + 2)))
              OR ucast (b ! (i + 3)))
      else None)"

definition putUint32_BE :: "uint32 \<Rightarrow> byte list \<Rightarrow> nat \<Rightarrow> byte list option" where
  "putUint32_BE n b i =
     (if i + 4 \<le> length b
      then Some (b[i := ucast (drop_bit 24 n),
                   i + 1 := ucast (drop_bit 16 n),
                   i + 2 := ucast (drop_bit 8 n),
                   i + 3 := ucast n])
      else None)"

definition getInt32_LE :: "byte list \<Rightarrow> nat \<Rightarrow> int32 option" where
  "getInt32_LE b i =
     (if i + 4 \<le> length b
      then Some (ucast (b ! i)
              OR push_bit 8 (ucast (b ! (i + 1)))
              OR push_bit 16 (ucast (b ! (i + 2)))
              OR push_bit 24 (ucast (b ! (i + 3))))
      else None)"

definition getUint32_LE :: "byte list \<Rightarrow> nat \<Rightarrow> uint32 option" where
  "getUint32_LE b i =
     (if i + 4 \<le> length b
      then Some (ucast (b ! i)
              OR push_bit 8 (ucast (b ! (i + 1)))
              OR push_bit 16 (ucast (b ! (i + 2)))
              OR push_bit 24 (ucast (b ! (i + 3))))
      else None)"

definition putInt32_LE :: "int32 \<Rightarrow> byte list \<Rightarrow> nat \<Rightarrow> byte list option" where
  "putInt32_LE n b i =
     (if i + 4 \<le> length b
      then Some (b[i := ucast (n AND 0xFF),
                   i + 1 := ucast (signed_drop_bit 8 n AND 0xFF),
                   i + 2 := ucast (signed_drop_bit 16 n AND 0xFF),
                   i + 3 := ucast (signed_drop_bit 24 n AND 0xFF)])
      else None)"

definition putUint32_LE :: "uint32 \<Rightarrow> byte list \<Rightarrow> nat \<Rightarrow> byte list option" where
  "putUint32_LE n b i =
     (if i + 4 \<le> length b
      then Some (b[i := ucast (n AND 0xFF),
                   i + 1 := ucast (drop_bit 8 n AND 0xFF),
                   i + 2 := ucast (drop_bit 16 n AND 0xFF),
                   i + 3 := ucast (drop_bit 24 n AND 0xFF)])
      else None)"

definition getUint64_LE :: "byte list \<Rightarrow> nat \<Rightarrow> uint64 option" where
  "getUint64_LE b i =
     (if i + 8 \<le> length b
      then Some (ucast (b ! i)
              OR push_bit 8 (ucast (b ! (i + 1)))
              OR push_bit 16 (ucast (b ! (i + 2)))
              OR push_bit 24 (ucast (b ! (i + 3)))
              OR push_bit 32 (ucast (b ! (i + 4)))
              OR push_bit 40 (ucast (b ! (i + 5)))
              OR push_bit 48 (ucast (b ! (i + 6)))
              OR push_bit 56 (ucast (b ! (i + 7))))
      else None)"

definition putUint64_LE :: "uint64 \<Rightarrow> byte list \<Rightarrow> nat \<Rightarrow> byte list option" where
  "putUint64_LE n b i =
     (if i + 8 \<le> length b
      then Some (b[i := ucast (n AND 0xFF),
                   i + 1 := ucast (drop_bit 8 n AND 0xFF),
                   i + 2 := ucast (drop_bit 16 n AND 0xFF),
                   i + 3 := ucast (drop_bit 24 n AND 0xFF),
                   i + 4 := ucast (drop_bit 32 n AND 0xFF),
                   i + 5 := ucast (drop_bit 40 n AND 0xFF),
                   i + 6 := ucast (drop_bit 48 n AND 0xFF),
                   i + 7 := ucast (drop_bit 56 n AND 0xFF)])
      else None)"

section \<open>Memory views (memoryView.hpp)\<close>

text \<open>
  A view is the pair of a base address and a length in bytes; it owns no memory. The
  address \<open>0\<close> is \<open>nullptr\<close>. \<open>size_type\<close> is declared in immutableMemoryView.hpp, which
  is not among the sources: it is an unsigned integer type, taken here as a word of any
  width \<open>'w\<close>, so that \<open>+\<close> wraps around as it does in C++. The memory the views point
  into is a store from addresses to bytes.
\<close>

record 's MemoryView =
  dataAddress :: nat
  viewSize :: 's

type_synonym memory = "nat \<Rightarrow> byte"

text \<open>
  Modelled from the spec: \<open>assertIndexInRange(index, from, to)\<close> is declared in assert.hpp,
  which is not among the sources. The spec has every index checked against the half-open
  range \<open>[0, length)\<close> with an out-of-range failure otherwise, and the calls in
  memoryView.hpp pass \<open>size()\<close> as the bound of an index and \<open>size() + 1\<close> as the bound of an
  end offset: the check passes exactly when \<open>from \<le> index < to\<close>, and returns the index.
\<close>

definition assertIndexInRange :: "'w::len word \<Rightarrow> 'w word \<Rightarrow> 'w word \<Rightarrow> error + 'w word" where
  "assertIndexInRange index from to =
     (if index \<ge> to \<or> index < from then Inl IndexOutOfRange else Inr index)"

text \<open>
  \<open>dataAs<T>(offset)\<close>: two checks, then the address \<open>dataAddress() + offset\<close> as a \<open>T*\<close>.
  \<open>sizeof(T)\<close> is the parameter \<open>sizeofT\<close>; \<open>offset + sizeof(T)\<close> and \<open>size() + 1\<close> wrap
  around in \<open>size_type\<close>.
\<close>

definition dataAs :: "'w::len word MemoryView \<Rightarrow> 'w word \<Rightarrow> 'w word \<Rightarrow> error + nat" where
  "dataAs v sizeofT offset =
     (case assertIndexInRange offset 0 (viewSize v) of
        Inl e \<Rightarrow> Inl e
      | Inr _ \<Rightarrow>
          (case assertIndexInRange (offset + sizeofT) offset (viewSize v + 1) of
             Inl e \<Rightarrow> Inl e
           | Inr _ \<Rightarrow> Inr (dataAddress v + unat offset)))"

text \<open>
  \<open>construct<T>(args...)\<close>: one check, then placement \<open>new\<close> at \<open>dataAddress()\<close>. The
  constructor call \<open>T(args...)\<close> is the parameter \<open>ctor\<close>: given the address, it changes
  the program state \<open>'s\<close> (the memory at that address, and whatever else the constructor
  touches, such as the instance counter of the tests). The result is the \<open>T*\<close>.
\<close>

definition construct ::
  "'w::len word MemoryView \<Rightarrow> 'w word \<Rightarrow> (nat \<Rightarrow> 's \<Rightarrow> 's) \<Rightarrow> 's \<Rightarrow> (error + nat) \<times> 's" where
  "construct v sizeofT ctor st =
     (case assertIndexInRange sizeofT 0 (viewSize v + 1) of
        Inl e \<Rightarrow> (Inl e, st)
      | Inr _ \<Rightarrow> (Inr (dataAddress v), ctor (dataAddress v) st))"

text \<open>
  Modelled from the spec: \<open>MemoryView::slice(from, to)\<close> is declared in memoryView.hpp; its
  body is not among the sources. The spec: it returns a sub-view; it fails with an
  out-of-range condition if \<open>from > to\<close>, \<open>to > size\<close> or \<open>from > size\<close>; a slice where
  \<open>from == to\<close> is a valid empty view.
\<close>

definition slice ::
  "'w::len word MemoryView \<Rightarrow> 'w word \<Rightarrow> 'w word \<Rightarrow> error + 'w word MemoryView" where
  "slice v from to =
     (if from > to \<or> to > viewSize v \<or> from > viewSize v then Inl IndexOutOfRange
      else Inr \<lparr>dataAddress = dataAddress v + unat from, viewSize = to - from\<rparr>)"

text \<open>
  Modelled from the spec: \<open>MemoryView::fill(value, from, to)\<close> is declared in
  memoryView.hpp; its body is not among the sources. The spec: it validates
  \<open>from \<le> to \<le> size\<close>; out-of-range parameters fail with an out-of-range condition and
  leave the memory unmodified. Otherwise the bytes of the view at the offsets
  \<open>from \<le> k < to\<close> take the value, as the test testFill reads them back.
\<close>

definition fill ::
  "'w::len word MemoryView \<Rightarrow> byte \<Rightarrow> 'w word \<Rightarrow> 'w word \<Rightarrow> memory \<Rightarrow> (error + unit) \<times> memory" where
  "fill v val from to mem =
     (if from > to \<or> to > viewSize v \<or> from > viewSize v then (Inl IndexOutOfRange, mem)
      else (Inr (),
            (\<lambda>a. if dataAddress v + unat from \<le> a \<and> a < dataAddress v + unat to
                 then val else mem a)))"

subsection \<open>Moving and swapping views\<close>

text \<open>
  Modelled from the spec: \<open>ImmutableMemoryView\<close> (immutableMemoryView.hpp), the base class
  of \<open>MemoryView\<close>, is not among the sources. Its move constructor follows the spec's
  sentence that moving a view zeroes out the source's address and length, which the test
  testConstruction checks for the size: the result is the pair of the new view and the
  source as it is left.
\<close>

definition ImmutableMemoryView_move :: "'s::zero MemoryView \<Rightarrow> 's MemoryView \<times> 's MemoryView" where
  "ImmutableMemoryView_move rhs =
     (\<lparr>dataAddress = dataAddress rhs, viewSize = viewSize rhs\<rparr>,
      \<lparr>dataAddress = 0, viewSize = 0\<rparr>)"

text \<open>
  Modelled from the spec: \<open>ImmutableMemoryView::swap(rhs)\<close> is not among the sources
  either. The data of a view is its address and its length, and \<open>swap\<close> exchanges both
  with \<open>rhs\<close>, member by member as \<open>WriteBuffer::swap\<close> does for its own members: the
  result is the pair of \<open>*this\<close> and \<open>rhs\<close> afterwards.
\<close>

definition ImmutableMemoryView_swap ::
  "'s MemoryView \<Rightarrow> 's MemoryView \<Rightarrow> 's MemoryView \<times> 's MemoryView" where
  "ImmutableMemoryView_swap this rhs =
     (\<lparr>dataAddress = dataAddress rhs, viewSize = viewSize rhs\<rparr>,
      \<lparr>dataAddress = dataAddress this, viewSize = viewSize this\<rparr>)"

text \<open>
  \<open>MemoryView(MemoryView&& rhs) = default\<close> moves the base class. \<open>MemoryView::swap\<close> calls
  the base class's swap, and the move assignment \<open>operator= (MemoryView&& rhs)\<close> is
  \<open>return swap(rhs)\<close>. Each returns the pair (destination, source) after the call.
\<close>

definition MemoryView_move :: "'s::zero MemoryView \<Rightarrow> 's MemoryView \<times> 's MemoryView" where
  "MemoryView_move rhs = ImmutableMemoryView_move rhs"

definition MemoryView_swap ::
  "'s MemoryView \<Rightarrow> 's MemoryView \<Rightarrow> 's MemoryView \<times> 's MemoryView" where
  "MemoryView_swap this rhs = ImmutableMemoryView_swap this rhs"

definition MemoryView_move_assign ::
  "'s MemoryView \<Rightarrow> 's MemoryView \<Rightarrow> 's MemoryView \<times> 's MemoryView" where
  "MemoryView_move_assign this rhs = MemoryView_swap this rhs"

section \<open>Buffers (writeBuffer.hpp, byteBuffer.hpp)\<close>

text \<open>
  \<open>WriteBuffer\<close> has the members \<open>_position\<close>, \<open>_limit\<close> and \<open>_storage\<close>; \<open>ByteBuffer\<close>
  uses members of the same names, inherited from \<open>ReadBuffer\<close>. One record serves both.
  The storage is a \<open>MemoryBuffer\<close> (not among the sources), of which only \<open>size()\<close> is used
  here: it is kept as the view it holds.
\<close>

record 's Buffer =
  position :: 's
  limit :: 's
  storage :: "'s MemoryView"

definition capacity :: "'s Buffer \<Rightarrow> 's" where
  "capacity buf = viewSize (storage buf)"

definition WriteBuffer_rewind :: "'s::zero Buffer \<Rightarrow> 's Buffer" where
  "WriteBuffer_rewind buf = buf\<lparr>position := 0\<rparr>"

definition WriteBuffer_clear :: "'s::zero Buffer \<Rightarrow> 's Buffer" where
  "WriteBuffer_clear buf =
     (let buf1 = buf\<lparr>position := 0\<rparr> in buf1\<lparr>limit := capacity buf1\<rparr>)"

definition WriteBuffer_flip :: "'s::zero Buffer \<Rightarrow> 's Buffer" where
  "WriteBuffer_flip buf =
     (let buf1 = buf\<lparr>limit := position buf\<rparr> in buf1\<lparr>position := 0\<rparr>)"

text \<open>
  Modelled from the spec: \<open>ReadBuffer::rewind\<close> (readBuffer.hpp) is not among the sources.
  The spec: \<open>rewind\<close> sets the position to zero and leaves the limit unchanged.
\<close>

definition ReadBuffer_rewind :: "'s::zero Buffer \<Rightarrow> 's Buffer" where
  "ReadBuffer_rewind buf = buf\<lparr>position := 0\<rparr>"

definition ByteBuffer_clear :: "'s::zero Buffer \<Rightarrow> 's Buffer" where
  "ByteBuffer_clear buf =
     (let buf1 = buf\<lparr>position := 0\<rparr> in buf1\<lparr>limit := capacity buf1\<rparr>)"

definition ByteBuffer_flip :: "'s::zero Buffer \<Rightarrow> 's Buffer" where
  "ByteBuffer_flip buf =
     (let buf1 = buf\<lparr>limit := position buf\<rparr> in buf1\<lparr>position := 0\<rparr>)"

definition ByteBuffer_rewind :: "'s::zero Buffer \<Rightarrow> 's Buffer" where
  "ByteBuffer_rewind buf = ReadBuffer_rewind buf"

text \<open>The invariant of the data model: \<open>0 \<le> position \<le> limit \<le> capacity\<close>.\<close>

definition buffer_inv :: "'w::len word Buffer \<Rightarrow> bool" where
  "buffer_inv buf \<longleftrightarrow> 0 \<le> position buf \<and> position buf \<le> limit buf \<and> limit buf \<le> capacity buf"

section \<open>Optional (optional.hpp)\<close>

text \<open>
  \<open>Optional<T>\<close> is a flag \<open>_engaged\<close> over a union of an empty type and the payload: a
  tagged union. \<open>map\<close> and \<open>flatMap\<close> call \<open>f\<close> in one branch of a conditional expression
  only. To say whether \<open>f\<close> was called, \<open>f\<close> is a function with an effect: it takes the
  program state \<open>'s\<close> and returns its result with the state it leaves.
\<close>

datatype 'a Optional = NoneOpt | SomeOpt (payload: 'a)

fun isSome :: "'a Optional \<Rightarrow> bool" where
  "isSome NoneOpt = False"
| "isSome (SomeOpt _) = True"

definition isNone :: "'a Optional \<Rightarrow> bool" where
  "isNone opt = (\<not> isSome opt)"

definition Optional_map ::
  "'a Optional \<Rightarrow> ('a \<Rightarrow> 's \<Rightarrow> 'u \<times> 's) \<Rightarrow> 's \<Rightarrow> 'u Optional \<times> 's" where
  "Optional_map opt f st =
     (if isSome opt
      then (case f (payload opt) st of (u, st') \<Rightarrow> (SomeOpt u, st'))
      else (NoneOpt, st))"

definition Optional_flatMap ::
  "'a Optional \<Rightarrow> ('a \<Rightarrow> 's \<Rightarrow> 'u Optional \<times> 's) \<Rightarrow> 's \<Rightarrow> 'u Optional \<times> 's" where
  "Optional_flatMap opt f st =
     (if isSome opt then f (payload opt) st else (NoneOpt, st))"

section \<open>Promise and Future\<close>

text \<open>
  Modelled from the spec: the Future/Promise pair (solace/io/async/future.hpp and the
  promise beside it) is not among the sources; unixSocket.hpp only returns futures. The
  spec: the pair shares one completion cell with the states Pending, Resolved(value) and
  Failed(error).
\<close>

datatype ('v, 'e) cell = Pending | Resolved 'v | Failed 'e

text \<open>
  Modelled from the spec: \<open>Promise<T>::resolve(value)\<close> performs the single allowed
  transition, Pending to Resolved; a transition attempt on a settled cell fails with an
  invalid-state error.
\<close>

definition Promise_resolve :: "'v \<Rightarrow> ('v, 'e) cell \<Rightarrow> (error + unit) \<times> ('v, 'e) cell" where
  "Promise_resolve v c =
     (case c of Pending \<Rightarrow> (Inr (), Resolved v) | _ \<Rightarrow> (Inl InvalidState, c))"

text \<open>
  Modelled from the spec: \<open>Promise<T>::fail(error)\<close> performs the single allowed
  transition, Pending to Failed; on a settled cell it fails with an invalid-state error.
\<close>

definition Promise_fail :: "'e \<Rightarrow> ('v, 'e) cell \<Rightarrow> (error + unit) \<times> ('v, 'e) cell" where
  "Promise_fail e c =
     (case c of Pending \<Rightarrow> (Inr (), Failed e) | _ \<Rightarrow> (Inl InvalidState, c))"

text \<open>
  Modelled from the spec: what a Future derived from the cell sees, nothing while the
  cell is pending, then the settled value or the error.
\<close>

definition Future_settled :: "('v, 'e) cell \<Rightarrow> ('e + 'v) option" where
  "Future_settled c =
     (case c of Pending \<Rightarrow> None | Resolved v \<Rightarrow> Some (Inr v) | Failed e \<Rightarrow> Some (Inl e))"

text \<open>A call on the promise side, and a sequence of such calls with their results.\<close>

datatype ('v, 'e) call = Resolve 'v | Fail 'e

fun promise_call :: "('v, 'e) call \<Rightarrow> ('v, 'e) cell \<Rightarrow> (error + unit) \<times> ('v, 'e) cell" where
  "promise_call (Resolve v) c = Promise_resolve v c"
| "promise_call (Fail e) c = Promise_fail e c"

fun promise_calls ::
  "('v, 'e) call list \<Rightarrow> ('v, 'e) cell \<Rightarrow> (error + unit) list \<times> ('v, 'e) cell" where
  "promise_calls [] c = ([], c)"
| "promise_calls (x # xs) c =
     (case promise_call x c of
        (r, c') \<Rightarrow> (case promise_calls xs c' of (rs, c'') \<Rightarrow> (r # rs, c'')))"

text \<open>The cell a call settles a pending promise to, and the outcome it carries.\<close>

fun settled :: "('v, 'e) call \<Rightarrow> ('v, 'e) cell" where
  "settled (Resolve v) = Resolved v"
| "settled (Fail e) = Failed e"

fun outcome :: "('v, 'e) call \<Rightarrow> 'e + 'v" where
  "outcome (Resolve v) = Inr v"
| "outcome (Fail e) = Inl e"

section \<open>Selector\<close>

text \<open>
  Modelled from the spec: the Selector (solace/io/selector.hpp and its poll
  implementation) is not among the sources; only its test is. The spec: a registration
  is a pollable handle identifier, an interest mask (read/write/error) and an opaque user
  tag, at most one per handle; a ready event is a handle with its readiness mask; the
  result of a poll is a finite, forward-only sequence of ready events.
\<close>

datatype interest = Read | Write | Error

record registration =
  handle :: nat
  interestMask :: "interest set"
  userTag :: nat

record Selector =
  maxEvents :: nat
  registrations :: "registration list"

record event =
  fd :: nat
  readinessMask :: "interest set"

record Iterator =
  events :: "event list"
  index :: nat

text \<open>
  Modelled from the spec: \<open>createPoll(maxEvents)\<close> constructs a Selector with a hinted
  capacity and no registration; \<open>remove(handle)\<close> deregisters and is a no-op on a handle
  that is not registered; \<open>add(handle, interestMask)\<close> registers or replaces.
\<close>

definition createPoll :: "nat \<Rightarrow> Selector" where
  "createPoll n = \<lparr>maxEvents = n, registrations = []\<rparr>"

definition remove :: "nat \<Rightarrow> Selector \<Rightarrow> Selector" where
  "remove h sel = sel\<lparr>registrations := filter (\<lambda>r. handle r \<noteq> h) (registrations sel)\<rparr>"

definition add :: "nat \<Rightarrow> interest set \<Rightarrow> nat \<Rightarrow> Selector \<Rightarrow> Selector" where
  "add h m tag sel =
     sel\<lparr>registrations :=
           filter (\<lambda>r. handle r \<noteq> h) (registrations sel)
           @ [\<lparr>handle = h, interestMask = m, userTag = tag\<rparr>]\<rparr>"

text \<open>
  Modelled from the spec: \<open>poll(timeoutMillis)\<close> returns the sequence of the ready events,
  at its beginning. What the multiplexing system call reports within the timeout is the
  parameter \<open>ready\<close>, the conditions that hold on each handle; a registered handle is
  ready when one of them is in its interest mask.
\<close>

definition readyEvents :: "(nat \<Rightarrow> interest set) \<Rightarrow> registration list \<Rightarrow> event list" where
  "readyEvents ready rs =
     map (\<lambda>r. \<lparr>fd = handle r, readinessMask = ready (handle r) \<inter> interestMask r\<rparr>)
       (filter (\<lambda>r. ready (handle r) \<inter> interestMask r \<noteq> {}) rs)"

definition poll :: "Selector \<Rightarrow> int \<Rightarrow> (nat \<Rightarrow> interest set) \<Rightarrow> Iterator" where
  "poll sel timeoutMillis ready =
     \<lparr>events = readyEvents ready (registrations sel), index = 0\<rparr>"

text \<open>
  Modelled from the spec: \<open>end()\<close> is the exhausted sequence, and advancing a sequence
  past its end fails with an out-of-range condition.
\<close>

definition Iterator_end :: "Iterator \<Rightarrow> Iterator" where
  "Iterator_end it = it\<lparr>index := length (events it)\<rparr>"

definition Iterator_increment :: "Iterator \<Rightarrow> error + Iterator" where
  "Iterator_increment it =
     (if index it < length (events it) then Inr (it\<lparr>index := Suc (index it)\<rparr>)
      else Inl IndexOutOfRange)"

section \<open>Bytes of a word\<close>

lemma and_FF: "(x :: 'a::len word) AND 0xFF = take_bit 8 x"
proof -
  have "(0xFF :: 'a word) = mask 8"
    by (simp add: mask_eq_exp_minus_1)
  then show ?thesis
    by (simp add: take_bit_eq_mask)
qed

lemma ucast_and_FF: "(ucast ((x :: 'a::len word) AND 0xFF) :: byte) = ucast x"
  by (rule bit_word_eqI) (auto simp: and_FF bit_simps)

lemma bit_byte_at:
  "bit (push_bit s (ucast (ucast (drop_bit s n) :: byte)) :: 'a::len word) k
     \<longleftrightarrow> s \<le> k \<and> k < s + 8 \<and> bit (n :: 'a word) k"
  by (auto simp: bit_simps dest: bit_imp_le_length)

lemma bit_byte_at0:
  "bit (ucast (ucast n :: byte) :: 'a::len word) k \<longleftrightarrow> k < 8 \<and> bit (n :: 'a word) k"
  by (auto simp: bit_simps dest: bit_imp_le_length)

lemma bit_byte_signed:
  "s + 8 \<le> LENGTH('a) \<Longrightarrow>
   bit (push_bit s (ucast (ucast (signed_drop_bit s n) :: byte)) :: 'a::len word) k
     \<longleftrightarrow> s \<le> k \<and> k < s + 8 \<and> bit (n :: 'a word) k"
  by (auto simp: bit_simps dest: bit_imp_le_length)

lemma unat_byte_at:
  "unat (ucast (drop_bit s (n :: 'a::len word)) :: byte) = unat n div 2 ^ s mod 256"
proof -
  have "unat (ucast (drop_bit s n) :: byte) = take_bit 8 (drop_bit s (unat n))"
    by (simp add: unsigned_ucast_eq unat_drop_bit_eq)
  then show ?thesis
    by (simp add: drop_bit_eq_div take_bit_eq_mod)
qed

lemma be32_word:
  "push_bit 24 (ucast (ucast (drop_bit 24 n) :: byte))
   OR push_bit 16 (ucast (ucast (drop_bit 16 n) :: byte))
   OR push_bit 8 (ucast (ucast (drop_bit 8 n) :: byte))
   OR ucast (ucast n :: byte) = (n :: uint32)"
  apply (rule bit_word_eqI)
  apply (simp only: bit_or_iff bit_byte_at bit_byte_at0)
  apply (auto simp: not_less)
  done

lemma le32_word:
  "ucast (ucast n :: byte)
   OR push_bit 8 (ucast (ucast (drop_bit 8 n) :: byte))
   OR push_bit 16 (ucast (ucast (drop_bit 16 n) :: byte))
   OR push_bit 24 (ucast (ucast (drop_bit 24 n) :: byte)) = (n :: uint32)"
  apply (rule bit_word_eqI)
  apply (simp only: bit_or_iff bit_byte_at bit_byte_at0)
  apply (auto simp: not_less)
  done

lemma le32_signed_word:
  "ucast (ucast n :: byte)
   OR push_bit 8 (ucast (ucast (signed_drop_bit 8 n) :: byte))
   OR push_bit 16 (ucast (ucast (signed_drop_bit 16 n) :: byte))
   OR push_bit 24 (ucast (ucast (signed_drop_bit 24 n) :: byte)) = (n :: int32)"
  apply (rule bit_word_eqI)
  apply (simp add: bit_or_iff bit_byte_signed bit_byte_at0)
  apply (auto simp: not_less)
  done

lemma le64_word:
  "ucast (ucast n :: byte)
   OR push_bit 8 (ucast (ucast (drop_bit 8 n) :: byte))
   OR push_bit 16 (ucast (ucast (drop_bit 16 n) :: byte))
   OR push_bit 24 (ucast (ucast (drop_bit 24 n) :: byte))
   OR push_bit 32 (ucast (ucast (drop_bit 32 n) :: byte))
   OR push_bit 40 (ucast (ucast (drop_bit 40 n) :: byte))
   OR push_bit 48 (ucast (ucast (drop_bit 48 n) :: byte))
   OR push_bit 56 (ucast (ucast (drop_bit 56 n) :: byte)) = (n :: uint64)"
  apply (rule bit_word_eqI)
  apply (simp only: bit_or_iff bit_byte_at bit_byte_at0)
  apply (auto simp: not_less)
  done

section \<open>Byte order of the 32-bit writers\<close>

text \<open>
  Claim C3. For every \<open>uint32\<close> value \<open>n\<close>, byte array \<open>b\<close> and index \<open>i\<close> within it,
  \<open>putUint32_LE\<close> stores the least-significant byte of \<open>n\<close> at \<open>b[i]\<close> and the successively
  more significant bytes at \<open>b[i + 1] .. b[i + 3]\<close>, and \<open>putUint32_BE\<close> stores the
  most-significant byte at \<open>b[i]\<close> down to the least-significant one at \<open>b[i + 3]\<close>. The
  functions only shift and mask, so nothing depends on the byte order of the host. For
  \<open>n = 0x01020304\<close> the little-endian bytes are \<open>[04, 03, 02, 01]\<close> and the big-endian
  bytes are \<open>[01, 02, 03, 04]\<close>. The \<open>k\<close>-th byte of \<open>n\<close> is \<open>unat n div 256 ^ k mod 256\<close>.
\<close>

theorem putUint32_byte_order:
  "(i + 4 \<le> length b \<longrightarrow>
      (\<exists>le. putUint32_LE n b i = Some le \<and> length le = length b
          \<and> unat (le ! i) = unat n mod 256
          \<and> unat (le ! (i + 1)) = unat n div 256 mod 256
          \<and> unat (le ! (i + 2)) = unat n div 256 ^ 2 mod 256
          \<and> unat (le ! (i + 3)) = unat n div 256 ^ 3 mod 256)
    \<and> (\<exists>be. putUint32_BE n b i = Some be \<and> length be = length b
          \<and> unat (be ! i) = unat n div 256 ^ 3 mod 256
          \<and> unat (be ! (i + 1)) = unat n div 256 ^ 2 mod 256
          \<and> unat (be ! (i + 2)) = unat n div 256 mod 256
          \<and> unat (be ! (i + 3)) = unat n mod 256))
   \<and> putUint32_LE 0x01020304 [0, 0, 0, 0] 0 = Some [0x04, 0x03, 0x02, 0x01]
   \<and> putUint32_BE 0x01020304 [0, 0, 0, 0] 0 = Some [0x01, 0x02, 0x03, 0x04]"
proof -
  have b0: "unat (ucast n :: byte) = unat n mod 256"
    using unat_byte_at [of 0 n] by simp
  have b1: "unat (ucast (drop_bit 8 n) :: byte) = unat n div 256 mod 256"
    using unat_byte_at [of 8 n] by simp
  have b2: "unat (ucast (drop_bit 16 n) :: byte) = unat n div 256 ^ 2 mod 256"
    using unat_byte_at [of 16 n] by simp
  have b3: "unat (ucast (drop_bit 24 n) :: byte) = unat n div 256 ^ 3 mod 256"
    using unat_byte_at [of 24 n] by simp
  have general_le: "\<exists>le. putUint32_LE n b i = Some le \<and> length le = length b
          \<and> unat (le ! i) = unat n mod 256
          \<and> unat (le ! (i + 1)) = unat n div 256 mod 256
          \<and> unat (le ! (i + 2)) = unat n div 256 ^ 2 mod 256
          \<and> unat (le ! (i + 3)) = unat n div 256 ^ 3 mod 256" if "i + 4 \<le> length b"
    using that by (simp add: putUint32_LE_def ucast_and_FF nth_list_update b0 b1 b2 b3)
  have general_be: "\<exists>be. putUint32_BE n b i = Some be \<and> length be = length b
          \<and> unat (be ! i) = unat n div 256 ^ 3 mod 256
          \<and> unat (be ! (i + 1)) = unat n div 256 ^ 2 mod 256
          \<and> unat (be ! (i + 2)) = unat n div 256 mod 256
          \<and> unat (be ! (i + 3)) = unat n mod 256" if "i + 4 \<le> length b"
    using that by (simp add: putUint32_BE_def nth_list_update b0 b1 b2 b3)
  have ex_le: "putUint32_LE 0x01020304 [0, 0, 0, 0] 0 = Some [0x04, 0x03, 0x02, 0x01]"
    by (simp add: putUint32_LE_def drop_bit_eq_div)
  have ex_be: "putUint32_BE 0x01020304 [0, 0, 0, 0] 0 = Some [0x01, 0x02, 0x03, 0x04]"
    by (simp add: putUint32_BE_def drop_bit_eq_div)
  from general_le general_be ex_le ex_be show ?thesis
    by blast
qed

theorem putUint32_byte_order_witness:
  "1 + 4 \<le> length [9, 9, 9, 9, 9, 9 :: byte]
   \<and> (\<exists>le. putUint32_LE 0x0A0B0C0D [9, 9, 9, 9, 9, 9] 1 = Some le
         \<and> unat (le ! 1) = 0x0D \<and> unat (le ! 2) = 0x0C \<and> unat (le ! 3) = 0x0B \<and> unat (le ! 4) = 0x0A)
   \<and> (\<exists>be. putUint32_BE 0x0A0B0C0D [9, 9, 9, 9, 9, 9] 1 = Some be
         \<and> unat (be ! 1) = 0x0A \<and> unat (be ! 2) = 0x0B \<and> unat (be ! 3) = 0x0C \<and> unat (be ! 4) = 0x0D)"
  using putUint32_byte_order [of 1 "[9, 9, 9, 9, 9, 9]" "0x0A0B0C0D"]
  by (simp add: putUint32_LE_def putUint32_BE_def drop_bit_eq_div)

section \<open>Round trip of the endian-aware readers and writers\<close>

text \<open>
  Claim C4. For every fixed-width value \<open>x\<close>, byte array \<open>b\<close> that is large enough and
  index \<open>i\<close>, writing \<open>x\<close> with the put function of one byte order and reading it back at
  the same index with the get function of the same byte order gives \<open>x\<close> again:
  \<open>getUint32_BE\<close> after \<open>putUint32_BE\<close>, \<open>getUint32_LE\<close> after \<open>putUint32_LE\<close>,
  \<open>getInt32_LE\<close> after \<open>putInt32_LE\<close> and \<open>getUint64_LE\<close> after \<open>putUint64_LE\<close>.
\<close>

theorem endian_round_trip:
  "(i + 4 \<le> length b \<longrightarrow>
       Option.bind (putUint32_BE x b i) (\<lambda>b'. getUint32_BE b' i) = Some x
     \<and> Option.bind (putUint32_LE x b i) (\<lambda>b'. getUint32_LE b' i) = Some x
     \<and> Option.bind (putInt32_LE y b i) (\<lambda>b'. getInt32_LE b' i) = Some y)
   \<and> (i + 8 \<le> length b \<longrightarrow>
       Option.bind (putUint64_LE z b i) (\<lambda>b'. getUint64_LE b' i) = Some z)"
proof -
  have be32: "Option.bind (putUint32_BE x b i) (\<lambda>b'. getUint32_BE b' i) = Some x"
    if "i + 4 \<le> length b"
    using that by (simp add: putUint32_BE_def getUint32_BE_def nth_list_update be32_word)
  have le32: "Option.bind (putUint32_LE x b i) (\<lambda>b'. getUint32_LE b' i) = Some x"
    if "i + 4 \<le> length b"
    using that
    by (simp add: putUint32_LE_def getUint32_LE_def nth_list_update ucast_and_FF le32_word)
  have sle32: "Option.bind (putInt32_LE y b i) (\<lambda>b'. getInt32_LE b' i) = Some y"
    if "i + 4 \<le> length b"
    using that
    by (simp add: putInt32_LE_def getInt32_LE_def nth_list_update ucast_and_FF le32_signed_word)
  have le64: "Option.bind (putUint64_LE z b i) (\<lambda>b'. getUint64_LE b' i) = Some z"
    if "i + 8 \<le> length b"
    using that
    by (simp add: putUint64_LE_def getUint64_LE_def nth_list_update ucast_and_FF le64_word)
  from be32 le32 sle32 le64 show ?thesis
    by blast
qed

theorem endian_round_trip_witness:
  "2 + 4 \<le> length (replicate 10 (0 :: byte)) \<and> 2 + 8 \<le> length (replicate 10 (0 :: byte))
   \<and> Option.bind (putUint32_BE 0xDEADBEEF (replicate 10 0) 2) (\<lambda>b'. getUint32_BE b' 2) = Some 0xDEADBEEF
   \<and> Option.bind (putUint32_LE 0xDEADBEEF (replicate 10 0) 2) (\<lambda>b'. getUint32_LE b' 2) = Some 0xDEADBEEF
   \<and> Option.bind (putInt32_LE (- 2) (replicate 10 0) 2) (\<lambda>b'. getInt32_LE b' 2) = Some (- 2)
   \<and> Option.bind (putUint64_LE 0x0102030405060708 (replicate 10 0) 2) (\<lambda>b'. getUint64_LE b' 2)
        = Some 0x0102030405060708"
  using endian_round_trip [of 2 "replicate 10 0" "0xDEADBEEF" "- 2" "0x0102030405060708"]
  by simp

section \<open>Buffer lifecycle operations\<close>

text \<open>
  Claim C2. For every buffer (WriteBuffer or ByteBuffer) in a state with
  \<open>0 \<le> position \<le> limit \<le> capacity\<close>: \<open>clear()\<close> leaves \<open>position = 0\<close> and
  \<open>limit = capacity\<close>; \<open>flip()\<close> leaves \<open>limit\<close> equal to the old position and
  \<open>position = 0\<close>; \<open>rewind()\<close> leaves \<open>position = 0\<close> and the limit unchanged; each of them
  keeps the capacity and preserves the invariant. \<open>clear()\<close> is idempotent, and a repeated
  \<open>flip()\<close>, or a \<open>flip()\<close> with nothing written (position zero), leaves \<open>limit = 0\<close>.
\<close>

theorem buffer_lifecycle:
  "(buffer_inv buf \<longrightarrow>
       position (WriteBuffer_clear buf) = 0 \<and> limit (WriteBuffer_clear buf) = capacity buf
     \<and> capacity (WriteBuffer_clear buf) = capacity buf \<and> buffer_inv (WriteBuffer_clear buf)
     \<and> position (WriteBuffer_flip buf) = 0 \<and> limit (WriteBuffer_flip buf) = position buf
     \<and> capacity (WriteBuffer_flip buf) = capacity buf \<and> buffer_inv (WriteBuffer_flip buf)
     \<and> position (WriteBuffer_rewind buf) = 0 \<and> limit (WriteBuffer_rewind buf) = limit buf
     \<and> capacity (WriteBuffer_rewind buf) = capacity buf \<and> buffer_inv (WriteBuffer_rewind buf)
     \<and> position (ByteBuffer_clear buf) = 0 \<and> limit (ByteBuffer_clear buf) = capacity buf
     \<and> capacity (ByteBuffer_clear buf) = capacity buf \<and> buffer_inv (ByteBuffer_clear buf)
     \<and> position (ByteBuffer_flip buf) = 0 \<and> limit (ByteBuffer_flip buf) = position buf
     \<and> capacity (ByteBuffer_flip buf) = capacity buf \<and> buffer_inv (ByteBuffer_flip buf)
     \<and> position (ByteBuffer_rewind buf) = 0 \<and> limit (ByteBuffer_rewind buf) = limit buf
     \<and> capacity (ByteBuffer_rewind buf) = capacity buf \<and> buffer_inv (ByteBuffer_rewind buf)
     \<and> WriteBuffer_clear (WriteBuffer_clear buf) = WriteBuffer_clear buf
     \<and> ByteBuffer_clear (ByteBuffer_clear buf) = ByteBuffer_clear buf
     \<and> limit (WriteBuffer_flip (WriteBuffer_flip buf)) = 0
     \<and> limit (ByteBuffer_flip (ByteBuffer_flip buf)) = 0
     \<and> (position buf = 0 \<longrightarrow>
            limit (WriteBuffer_flip buf) = 0 \<and> limit (ByteBuffer_flip buf) = 0))"
proof -
  have wclear: "position (WriteBuffer_clear buf) = 0 \<and> limit (WriteBuffer_clear buf) = capacity buf
     \<and> capacity (WriteBuffer_clear buf) = capacity buf \<and> buffer_inv (WriteBuffer_clear buf)"
    by (simp add: WriteBuffer_clear_def capacity_def buffer_inv_def Let_def)
  have bclear: "position (ByteBuffer_clear buf) = 0 \<and> limit (ByteBuffer_clear buf) = capacity buf
     \<and> capacity (ByteBuffer_clear buf) = capacity buf \<and> buffer_inv (ByteBuffer_clear buf)"
    by (simp add: ByteBuffer_clear_def capacity_def buffer_inv_def Let_def)
  have wflip: "position (WriteBuffer_flip buf) = 0 \<and> limit (WriteBuffer_flip buf) = position buf
     \<and> capacity (WriteBuffer_flip buf) = capacity buf \<and> buffer_inv (WriteBuffer_flip buf)"
    if "buffer_inv buf"
    using that by (auto simp: WriteBuffer_flip_def capacity_def buffer_inv_def Let_def)
  have bflip: "position (ByteBuffer_flip buf) = 0 \<and> limit (ByteBuffer_flip buf) = position buf
     \<and> capacity (ByteBuffer_flip buf) = capacity buf \<and> buffer_inv (ByteBuffer_flip buf)"
    if "buffer_inv buf"
    using that by (auto simp: ByteBuffer_flip_def capacity_def buffer_inv_def Let_def)
  have wrewind: "position (WriteBuffer_rewind buf) = 0 \<and> limit (WriteBuffer_rewind buf) = limit buf
     \<and> capacity (WriteBuffer_rewind buf) = capacity buf \<and> buffer_inv (WriteBuffer_rewind buf)"
    if "buffer_inv buf"
    using that by (auto simp: WriteBuffer_rewind_def capacity_def buffer_inv_def)
  have brewind: "position (ByteBuffer_rewind buf) = 0 \<and> limit (ByteBuffer_rewind buf) = limit buf
     \<and> capacity (ByteBuffer_rewind buf) = capacity buf \<and> buffer_inv (ByteBuffer_rewind buf)"
    if "buffer_inv buf"
    using that
    by (auto simp: ByteBuffer_rewind_def ReadBuffer_rewind_def capacity_def buffer_inv_def)
  have idem: "WriteBuffer_clear (WriteBuffer_clear buf) = WriteBuffer_clear buf
     \<and> ByteBuffer_clear (ByteBuffer_clear buf) = ByteBuffer_clear buf"
    by (simp add: WriteBuffer_clear_def ByteBuffer_clear_def capacity_def Let_def)
  have flips: "limit (WriteBuffer_flip (WriteBuffer_flip buf)) = 0
     \<and> limit (ByteBuffer_flip (ByteBuffer_flip buf)) = 0"
    by (simp add: WriteBuffer_flip_def ByteBuffer_flip_def Let_def)
  have flip0: "limit (WriteBuffer_flip buf) = 0 \<and> limit (ByteBuffer_flip buf) = 0"
    if "position buf = 0"
    using that by (simp add: WriteBuffer_flip_def ByteBuffer_flip_def Let_def)
  from wclear bclear wflip bflip wrewind brewind idem flips flip0 show ?thesis
    by blast
qed

theorem buffer_lifecycle_witness:
  "buffer_inv \<lparr>position = 3, limit = 5, storage = \<lparr>dataAddress = 4096, viewSize = 8 :: 32 word\<rparr>\<rparr>
   \<and> WriteBuffer_clear \<lparr>position = 3, limit = 5, storage = \<lparr>dataAddress = 4096, viewSize = 8 :: 32 word\<rparr>\<rparr>
       = \<lparr>position = 0, limit = 8, storage = \<lparr>dataAddress = 4096, viewSize = 8\<rparr>\<rparr>
   \<and> ByteBuffer_flip \<lparr>position = 3, limit = 5, storage = \<lparr>dataAddress = 4096, viewSize = 8 :: 32 word\<rparr>\<rparr>
       = \<lparr>position = 0, limit = 3, storage = \<lparr>dataAddress = 4096, viewSize = 8\<rparr>\<rparr>
   \<and> buffer_inv (ByteBuffer_flip
         \<lparr>position = 3, limit = 5, storage = \<lparr>dataAddress = 4096, viewSize = 8 :: 32 word\<rparr>\<rparr>)
   \<and> limit (WriteBuffer_rewind
         \<lparr>position = 3, limit = 5, storage = \<lparr>dataAddress = 4096, viewSize = 8 :: 32 word\<rparr>\<rparr>) = 5
   \<and> buffer_inv \<lparr>position = 0, limit = 8, storage = \<lparr>dataAddress = 4096, viewSize = 8 :: 32 word\<rparr>\<rparr>
   \<and> position \<lparr>position = 0, limit = 8, storage = \<lparr>dataAddress = 4096, viewSize = 8 :: 32 word\<rparr>\<rparr> = 0
   \<and> limit (WriteBuffer_flip
         \<lparr>position = 0, limit = 8, storage = \<lparr>dataAddress = 4096, viewSize = 8 :: 32 word\<rparr>\<rparr>) = 0"
  using
    buffer_lifecycle
      [of "\<lparr>position = 3, limit = 5, storage = \<lparr>dataAddress = 4096, viewSize = 8 :: 32 word\<rparr>\<rparr>"]
    buffer_lifecycle
      [of "\<lparr>position = 0, limit = 8, storage = \<lparr>dataAddress = 4096, viewSize = 8 :: 32 word\<rparr>\<rparr>"]
  by (simp add: buffer_inv_def capacity_def WriteBuffer_clear_def ByteBuffer_flip_def
      WriteBuffer_rewind_def WriteBuffer_flip_def Let_def)

section \<open>Slices of a view\<close>

text \<open>
  Claim C5. For every memory view \<open>v\<close> and indices \<open>from\<close>, \<open>to\<close>: if \<open>from \<le> to\<close> and
  \<open>to \<le> v.size()\<close> then \<open>v.slice(from, to)\<close> succeeds and the size of the resulting view is
  \<open>to - from\<close>; in particular \<open>from = to\<close> gives a valid empty view, also on the empty
  view. If \<open>from > to\<close>, or \<open>to > v.size()\<close>, or \<open>from > v.size()\<close>, then \<open>slice\<close> fails with
  an out-of-range condition.
\<close>

theorem slice_bounds:
  "(from \<le> to \<and> to \<le> viewSize v \<longrightarrow>
      (\<exists>s. slice v from to = Inr s \<and> viewSize s = to - from
           \<and> unat (viewSize s) = unat to - unat from
           \<and> dataAddress s = dataAddress v + unat from))
   \<and> (from \<le> viewSize v \<longrightarrow> (\<exists>s. slice v from from = Inr s \<and> viewSize s = 0))
   \<and> (\<exists>s. slice \<lparr>dataAddress = 0, viewSize = 0\<rparr> 0 0 = Inr s \<and> viewSize s = (0 :: 'w::len word))
   \<and> (from > to \<or> to > viewSize v \<or> from > viewSize v \<longrightarrow>
        slice v from to = Inl IndexOutOfRange)"
  for v :: "'w::len word MemoryView"
proof -
  have ok: "\<exists>s. slice v from to = Inr s \<and> viewSize s = to - from
           \<and> unat (viewSize s) = unat to - unat from
           \<and> dataAddress s = dataAddress v + unat from"
    if "from \<le> to \<and> to \<le> viewSize v"
  proof -
    from that have "\<not> (from > to \<or> to > viewSize v \<or> from > viewSize v)"
      by auto
    with that show ?thesis
      by (simp add: slice_def unat_sub)
  qed
  have empty: "\<exists>s. slice v from from = Inr s \<and> viewSize s = 0" if "from \<le> viewSize v"
    using that by (simp add: slice_def not_less)
  have null: "\<exists>s. slice \<lparr>dataAddress = 0, viewSize = 0\<rparr> 0 0 = Inr s \<and> viewSize s = (0 :: 'w word)"
    by (simp add: slice_def)
  have bad: "slice v from to = Inl IndexOutOfRange"
    if "from > to \<or> to > viewSize v \<or> from > viewSize v"
    using that by (simp add: slice_def)
  from ok empty null bad show ?thesis
    by blast
qed

theorem slice_bounds_witness:
  "(32 :: 64 word) \<le> 64 \<and> (64 :: 64 word) \<le> viewSize \<lparr>dataAddress = 4096, viewSize = 64 :: 64 word\<rparr>
   \<and> slice \<lparr>dataAddress = 4096, viewSize = 64 :: 64 word\<rparr> 32 64
       = Inr \<lparr>dataAddress = 4128, viewSize = 32\<rparr>
   \<and> slice \<lparr>dataAddress = 4096, viewSize = 64 :: 64 word\<rparr> 3 3
       = Inr \<lparr>dataAddress = 4099, viewSize = 0\<rparr>
   \<and> (31 :: 64 word) > 18
   \<and> slice \<lparr>dataAddress = 4096, viewSize = 64 :: 64 word\<rparr> 31 18 = Inl IndexOutOfRange
   \<and> (939 :: 64 word) > viewSize \<lparr>dataAddress = 4096, viewSize = 64 :: 64 word\<rparr>
   \<and> slice \<lparr>dataAddress = 4096, viewSize = 64 :: 64 word\<rparr> 31 939 = Inl IndexOutOfRange
   \<and> (120 :: 64 word) > viewSize \<lparr>dataAddress = 4096, viewSize = 64 :: 64 word\<rparr>
   \<and> slice \<lparr>dataAddress = 4096, viewSize = 64 :: 64 word\<rparr> 120 152 = Inl IndexOutOfRange"
  using
    slice_bounds [of 32 64 "\<lparr>dataAddress = 4096, viewSize = 64 :: 64 word\<rparr>"]
    slice_bounds [of 3 3 "\<lparr>dataAddress = 4096, viewSize = 64 :: 64 word\<rparr>"]
    slice_bounds [of 31 18 "\<lparr>dataAddress = 4096, viewSize = 64 :: 64 word\<rparr>"]
    slice_bounds [of 31 939 "\<lparr>dataAddress = 4096, viewSize = 64 :: 64 word\<rparr>"]
    slice_bounds [of 120 152 "\<lparr>dataAddress = 4096, viewSize = 64 :: 64 word\<rparr>"]
  by (simp add: slice_def)

section \<open>A rejected fill changes nothing\<close>

text \<open>
  Claim C6. For every memory view \<open>v\<close>, byte value and indices \<open>from\<close>, \<open>to\<close>: if
  \<open>from > to\<close>, or \<open>from > v.size()\<close>, or \<open>to > v.size()\<close>, then \<open>v.fill(value, from, to)\<close>
  fails with an out-of-range condition and every byte of the underlying memory is as it
  was: nothing is written before the failure.
\<close>

theorem fill_out_of_range:
  "from > to \<or> from > viewSize v \<or> to > viewSize v \<Longrightarrow>
     fill v val from to mem = (Inl IndexOutOfRange, mem)"
  by (auto simp: fill_def)

theorem fill_out_of_range_witness:
  "(130 :: 64 word) > viewSize \<lparr>dataAddress = 4096, viewSize = 48 :: 64 word\<rparr>
   \<and> fill \<lparr>dataAddress = 4096, viewSize = 48 :: 64 word\<rparr> 3 3 130 (\<lambda>a. 64)
       = (Inl IndexOutOfRange, (\<lambda>a. 64))
   \<and> (100 :: 64 word) > 30
   \<and> fill \<lparr>dataAddress = 4096, viewSize = 48 :: 64 word\<rparr> 3 100 30 (\<lambda>a. 64)
       = (Inl IndexOutOfRange, (\<lambda>a. 64))
   \<and> (30 :: 64 word) > 3
   \<and> fill \<lparr>dataAddress = 4096, viewSize = 48 :: 64 word\<rparr> 3 30 3 (\<lambda>a. 64)
       = (Inl IndexOutOfRange, (\<lambda>a. 64))
   \<and> (100 :: 64 word) > viewSize \<lparr>dataAddress = 4096, viewSize = 48 :: 64 word\<rparr>
   \<and> fill \<lparr>dataAddress = 4096, viewSize = 48 :: 64 word\<rparr> 3 100 130 (\<lambda>a. 64)
       = (Inl IndexOutOfRange, (\<lambda>a. 64))"
  using
    fill_out_of_range [of 130 3 "\<lparr>dataAddress = 4096, viewSize = 48 :: 64 word\<rparr>" 3 "\<lambda>a. 64"]
    fill_out_of_range [of 30 100 "\<lparr>dataAddress = 4096, viewSize = 48 :: 64 word\<rparr>" 3 "\<lambda>a. 64"]
    fill_out_of_range [of 3 30 "\<lparr>dataAddress = 4096, viewSize = 48 :: 64 word\<rparr>" 3 "\<lambda>a. 64"]
    fill_out_of_range [of 130 100 "\<lparr>dataAddress = 4096, viewSize = 48 :: 64 word\<rparr>" 3 "\<lambda>a. 64"]
  by simp

section \<open>Moving a view\<close>

text \<open>
  Claim C7, as the spec states it: after moving from a view \<open>v\<close>, by move construction or
  by move assignment into another view, \<open>v\<close> has a null address and size zero, and the
  destination holds the former address and length of \<open>v\<close>. The move assignment is a swap,
  so this fails when the destination was not empty: moving a view of 7 bytes at address
  200 into a view of 5 bytes at address 100 leaves the source with address 100 and size 5.
\<close>

theorem move_assign_counterexample:
  "\<not> (dataAddress (snd (MemoryView_move_assign
          \<lparr>dataAddress = 100, viewSize = 5 :: 64 word\<rparr> \<lparr>dataAddress = 200, viewSize = 7\<rparr>)) = 0
      \<and> viewSize (snd (MemoryView_move_assign
          \<lparr>dataAddress = 100, viewSize = 5 :: 64 word\<rparr> \<lparr>dataAddress = 200, viewSize = 7\<rparr>)) = 0
      \<and> fst (MemoryView_move_assign
          \<lparr>dataAddress = 100, viewSize = 5 :: 64 word\<rparr> \<lparr>dataAddress = 200, viewSize = 7\<rparr>)
          = \<lparr>dataAddress = 200, viewSize = 7\<rparr>)"
  by (simp add: MemoryView_move_assign_def MemoryView_swap_def ImmutableMemoryView_swap_def)

text \<open>
  Claim C7, as amended. After move construction from a view \<open>v\<close>, \<open>v\<close> has a null address
  and size zero, and the new view holds the former address and length of \<open>v\<close>. After move
  assignment of \<open>v\<close> into a view \<open>d\<close>, \<open>d\<close> holds the former address and length of \<open>v\<close>,
  and \<open>v\<close> holds the former address and length of \<open>d\<close>.
\<close>

theorem move_leaves_source:
  "dataAddress (snd (MemoryView_move src)) = 0
   \<and> viewSize (snd (MemoryView_move src)) = 0
   \<and> dataAddress (fst (MemoryView_move src)) = dataAddress src
   \<and> viewSize (fst (MemoryView_move src)) = viewSize src
   \<and> dataAddress (fst (MemoryView_move_assign dst src)) = dataAddress src
   \<and> viewSize (fst (MemoryView_move_assign dst src)) = viewSize src
   \<and> dataAddress (snd (MemoryView_move_assign dst src)) = dataAddress dst
   \<and> viewSize (snd (MemoryView_move_assign dst src)) = viewSize dst"
  by (simp add: MemoryView_move_def ImmutableMemoryView_move_def MemoryView_move_assign_def
      MemoryView_swap_def ImmutableMemoryView_swap_def)

section \<open>Typed access and in-place construction\<close>

lemma unat_succ_le: "unat (sz + 1) \<le> unat sz + 1" for sz :: "'w::len word"
  by (simp add: unat_plus_if')

lemma end_offset_rejected:
  fixes offset sizeofT sz :: "'w::len word"
  assumes "unat offset + unat sizeofT > unat sz"
  shows "offset + sizeofT \<ge> sz + 1 \<or> offset + sizeofT < offset"
proof (cases "unat offset + unat sizeofT < 2 ^ LENGTH('w)")
  case True
  then have "unat (offset + sizeofT) = unat offset + unat sizeofT"
    by (simp add: unat_plus_if')
  with assms unat_succ_le [of sz] have "unat (sz + 1) \<le> unat (offset + sizeofT)"
    by linarith
  then have "sz + 1 \<le> offset + sizeofT"
    by (simp add: word_le_nat_alt)
  then show ?thesis ..
next
  case False
  then have "unat (offset + sizeofT) = unat offset + unat sizeofT - 2 ^ LENGTH('w)"
    by (simp add: unat_plus_if')
  moreover have "unat sizeofT < 2 ^ LENGTH('w)"
    by (rule unsigned_less)
  ultimately have "unat (offset + sizeofT) < unat offset"
    using False by linarith
  then have "offset + sizeofT < offset"
    by (simp add: word_less_nat_alt)
  then show ?thesis ..
qed

lemma size_rejected:
  fixes sizeofT sz :: "'w::len word"
  assumes "unat sizeofT > unat sz"
  shows "sizeofT \<ge> sz + 1"
proof -
  from assms unat_succ_le [of sz] have "unat (sz + 1) \<le> unat sizeofT"
    by linarith
  then show ?thesis
    by (simp add: word_le_nat_alt)
qed

text \<open>
  Claim C8. For every memory view \<open>v\<close>, type \<open>T\<close> and offset \<open>o\<close>: \<open>v.dataAs<T>(o)\<close> fails
  with an out-of-range condition whenever \<open>o + sizeof(T) > v.size()\<close>, and
  \<open>v.construct<T>(args...)\<close> fails with an out-of-range condition whenever
  \<open>sizeof(T) > v.size()\<close>: the check accounts for \<open>sizeof(T)\<close>, not for a single byte. A
  failed \<open>construct<T>\<close> constructs no object: the constructor does not run, so the state
  is as it was. The sums of the claim are the unbounded ones, \<open>unat o + unat sizeofT\<close>.
\<close>

theorem typed_access_checks_sizeof:
  "(unat offset + unat sizeofT > unat (viewSize v) \<longrightarrow>
       dataAs v sizeofT offset = Inl IndexOutOfRange)
   \<and> (unat sizeofT > unat (viewSize v) \<longrightarrow>
       construct v sizeofT ctor st = (Inl IndexOutOfRange, st))"
proof -
  have a: "dataAs v sizeofT offset = Inl IndexOutOfRange"
    if h: "unat offset + unat sizeofT > unat (viewSize v)"
  proof (cases "offset < viewSize v")
    case True
    from end_offset_rejected [OF h] True show ?thesis
      by (auto simp: dataAs_def assertIndexInRange_def)
  next
    case False
    then show ?thesis
      by (simp add: dataAs_def assertIndexInRange_def not_less)
  qed
  have b: "construct v sizeofT ctor st = (Inl IndexOutOfRange, st)"
    if h: "unat sizeofT > unat (viewSize v)"
    using size_rejected [OF h] by (simp add: construct_def assertIndexInRange_def)
  from a b show ?thesis by blast
qed

theorem typed_access_checks_sizeof_witness:
  "unat (6 :: 64 word) + unat (12 :: 64 word) > unat (viewSize \<lparr>dataAddress = 4096, viewSize = 17 :: 64 word\<rparr>)
   \<and> dataAs \<lparr>dataAddress = 4096, viewSize = 17 :: 64 word\<rparr> 12 6 = Inl IndexOutOfRange
   \<and> unat (12 :: 64 word) > unat (viewSize \<lparr>dataAddress = 4096, viewSize = 3 :: 64 word\<rparr>)
   \<and> construct \<lparr>dataAddress = 4096, viewSize = 3 :: 64 word\<rparr> 12 (\<lambda>a n. Suc n) (0 :: nat)
        = (Inl IndexOutOfRange, 0)"
  using typed_access_checks_sizeof
      [of "\<lparr>dataAddress = 4096, viewSize = 17 :: 64 word\<rparr>" 6 12 "\<lambda>a n. Suc n" "0 :: nat"]
    typed_access_checks_sizeof
      [of "\<lparr>dataAddress = 4096, viewSize = 3 :: 64 word\<rparr>" 6 12 "\<lambda>a n. Suc n" "0 :: nat"]
  by simp

section \<open>A promise settles once\<close>

lemma settled_calls:
  "c \<noteq> Pending \<Longrightarrow> promise_calls xs c = (replicate (length xs) (Inl InvalidState), c)"
proof (induction xs)
  case Nil
  then show ?case by simp
next
  case (Cons x xs)
  from Cons.prems have "promise_call x c = (Inl InvalidState, c)"
    by (cases x; cases c) (simp_all add: Promise_resolve_def Promise_fail_def)
  with Cons show ?case by simp
qed

text \<open>
  Claim C1. For every \<open>Promise<T>\<close>, the first call to \<open>resolve(value)\<close> or \<open>fail(error)\<close>
  performs the transition out of Pending, and any second call to either of them fails
  with an invalid-state condition; the settled value (or error) the Future sees is the one
  of the first call only, whatever calls follow.
\<close>

theorem promise_settles_once:
  "promise_call first Pending = (Inr (), settled first)
   \<and> promise_call second (settled first) = (Inl InvalidState, settled first)
   \<and> promise_calls (first # rest) Pending
       = (Inr () # replicate (length rest) (Inl InvalidState), settled first)
   \<and> Future_settled (snd (promise_calls (first # rest) Pending)) = Some (outcome first)"
proof -
  have one: "promise_call first Pending = (Inr (), settled first)"
    by (cases first) (simp_all add: Promise_resolve_def Promise_fail_def)
  have ne: "settled first \<noteq> Pending"
    by (cases first) simp_all
  have two: "promise_call second (settled first) = (Inl InvalidState, settled first)"
    by (cases second; cases first) (simp_all add: Promise_resolve_def Promise_fail_def)
  have seen: "Future_settled (settled first) = Some (outcome first)"
    by (cases first) (simp_all add: Future_settled_def)
  from one settled_calls [OF ne, of rest] two seen show ?thesis
    by simp
qed

section \<open>An empty poll\<close>

lemma readyEvents_none:
  "(\<forall>r \<in> set rs. ready (handle r) \<inter> interestMask r = {}) \<Longrightarrow> readyEvents ready rs = []"
  by (induction rs) (simp_all add: readyEvents_def)

text \<open>
  Claim C9. For every Selector, a \<open>poll(timeoutMillis)\<close> that finds no ready handle
  returns a sequence whose \<open>begin()\<close> equals its \<open>end()\<close>, and incrementing that sequence
  past its end fails with an out-of-range condition. So it is for a Selector with no
  registration at all, as in the test testEmptyPolling.
\<close>

theorem empty_poll_exhausted:
  "((\<forall>r \<in> set (registrations sel). ready (handle r) \<inter> interestMask r = {}) \<longrightarrow>
        poll sel timeoutMillis ready = Iterator_end (poll sel timeoutMillis ready)
      \<and> Iterator_increment (poll sel timeoutMillis ready) = Inl IndexOutOfRange)
   \<and> poll (createPoll n) timeoutMillis ready = Iterator_end (poll (createPoll n) timeoutMillis ready)
   \<and> Iterator_increment (poll (createPoll n) timeoutMillis ready) = Inl IndexOutOfRange
   \<and> Iterator_increment (Iterator_end it) = Inl IndexOutOfRange"
proof -
  have a: "poll sel timeoutMillis ready = Iterator_end (poll sel timeoutMillis ready)
      \<and> Iterator_increment (poll sel timeoutMillis ready) = Inl IndexOutOfRange"
    if "\<forall>r \<in> set (registrations sel). ready (handle r) \<inter> interestMask r = {}"
    using readyEvents_none [OF that]
    by (simp add: poll_def Iterator_end_def Iterator_increment_def)
  have b: "poll (createPoll n) timeoutMillis ready = Iterator_end (poll (createPoll n) timeoutMillis ready)
   \<and> Iterator_increment (poll (createPoll n) timeoutMillis ready) = Inl IndexOutOfRange"
    by (simp add: poll_def createPoll_def readyEvents_def Iterator_end_def Iterator_increment_def)
  have c: "Iterator_increment (Iterator_end it) = Inl IndexOutOfRange"
    by (simp add: Iterator_end_def Iterator_increment_def)
  from a b c show ?thesis by blast
qed

theorem empty_poll_exhausted_witness:
  "registrations (add 4 {Read} 0 (createPoll 5)) = [\<lparr>handle = 4, interestMask = {Read}, userTag = 0\<rparr>]
   \<and> {Write} \<inter> {Read} = ({} :: interest set)
   \<and> poll (add 4 {Read} 0 (createPoll 5)) 1 (\<lambda>h. {Write})
       = Iterator_end (poll (add 4 {Read} 0 (createPoll 5)) 1 (\<lambda>h. {Write}))
   \<and> Iterator_increment (poll (add 4 {Read} 0 (createPoll 5)) 1 (\<lambda>h. {Write}))
       = Inl IndexOutOfRange"
  using empty_poll_exhausted [of "add 4 {Read} 0 (createPoll 5)" "\<lambda>h. {Write}" 1]
  by (simp add: add_def createPoll_def)

section \<open>Optional: map and flatMap\<close>

text \<open>
  Claim C10. For every type \<open>T\<close> and function \<open>f\<close>: an \<open>Optional<T>\<close> that is None maps to
  None under \<open>map(f)\<close> and \<open>flatMap(f)\<close> without \<open>f\<close> being invoked (the state is as it
  was, whatever \<open>f\<close> would do to it), and an Optional holding \<open>x\<close> maps to an Optional
  holding \<open>f(x)\<close> under \<open>map(f)\<close>, and to \<open>f(x)\<close> itself under \<open>flatMap(f)\<close>.
\<close>

theorem optional_map_flatMap:
  "Optional_map NoneOpt f st = (NoneOpt, st)
   \<and> Optional_flatMap NoneOpt g st = (NoneOpt, st)
   \<and> Optional_map (SomeOpt x) f st = (SomeOpt (fst (f x st)), snd (f x st))
   \<and> Optional_flatMap (SomeOpt x) g st = g x st"
  by (simp add: Optional_map_def Optional_flatMap_def split: prod.split)

end
